theory Spec2Isabelle
  imports Complex_Main
begin

section \<open>Errors\<close>

text \<open>
  Both scripts are straight-line Python with no \<^verbatim>\<open>try\<close>/\<^verbatim>\<open>except\<close> anywhere, so every
  exception leaves the function that raised it and ends the run.  An exception is the
  left summand of the result type.
\<close>

datatype py_error =
    IndexError
  | TypeError
  | KeyError string
  | AttributeError string
  | ValueError string
  | InvalidIndexError
  | ProviderFault string

section \<open>build_catalog.py\<close>

subsection \<open>What the metadata provider returns\<close>

text \<open>
  \<^verbatim>\<open>copernicusmarine.describe\<close> returns a hierarchy
  catalogue / product / dataset / version / part / service / variable / coordinate.
  Only the attributes that \<^verbatim>\<open>build_entry\<close> reads are kept.  Attributes that the script
  tests against \<^verbatim>\<open>None\<close> are options.  Numbers are exact rationals: the rounding of
  floating-point subtraction and division is not part of the model.
\<close>

datatype cm_value = Num rat | Str string

record coordinate =
  coordinate_id :: string
  axis :: string
  coord_values :: "cm_value list option"
  minimum_value :: "rat option"
  maximum_value :: "rat option"
  step :: "rat option"
  chunking_length :: "rat option"
  coordinate_unit :: "string option"

record cm_variable =
  short_name :: string
  standard_name :: "string option"
  units :: "string option"
  coordinates :: "coordinate list"

record service =
  service_name :: string
  service_format :: "string option"
  uri :: string
  variables :: "cm_variable list"

record part =
  services :: "service list"

record version =
  parts :: "part list"

record cm_dataset =
  versions :: "version list"

record product =
  product_id :: string
  datasets :: "cm_dataset list"

record catalogue =
  products :: "product list"

type_synonym provider = "string \<Rightarrow> py_error + catalogue"

subsection \<open>Configuration and output\<close>

record target =
  dataset_id :: string
  label :: string
  target_variables :: "string list"
  preferred_service :: string

definition TARGETS :: "target list" where
  "TARGETS =
     [\<lparr>dataset_id = ''cmems_mod_glo_phy-cur_anfc_0.083deg_PT6H-i'',
       label = ''Global Ocean Currents (analysis+forecast)'',
       target_variables = [''uo'', ''vo''],
       preferred_service = ''arco-geo-series''\<rparr>]"

text \<open>
  The dictionary \<^verbatim>\<open>dim\<close> has the keys \<^verbatim>\<open>axis\<close> and \<^verbatim>\<open>size\<close> always, and the keys
  \<^verbatim>\<open>values\<close>, \<^verbatim>\<open>min\<close>, \<^verbatim>\<open>max\<close>, \<^verbatim>\<open>step\<close>, \<^verbatim>\<open>chunk_size\<close>, \<^verbatim>\<open>units\<close> only when the
  script stores them: an absent key is \<open>None\<close>.  The value of \<^verbatim>\<open>size\<close> can itself be
  Python's \<^verbatim>\<open>None\<close> (JSON \<^verbatim>\<open>null\<close>), which is \<open>dim_size = None\<close>.
\<close>

record dimension =
  dim_axis :: string
  dim_size :: "int option"
  dim_values :: "cm_value list option"
  dim_min :: "rat option"
  dim_max :: "rat option"
  dim_step :: "rat option"
  dim_chunk_size :: "rat option"
  dim_units :: "string option"

record variable_info =
  info_standard_name :: "string option"
  info_units :: "string option"

record entry =
  entry_id :: string
  entry_product :: string
  entry_label :: string
  zarr_url :: string
  entry_variables :: "string \<rightharpoonup> variable_info"
  entry_dimensions :: "string \<rightharpoonup> dimension"

record catalog =
  generated :: string
  cat_datasets :: "entry list"

subsection \<open>build_entry\<close>

text \<open>Python's \<^verbatim>\<open>int(x)\<close> on a float truncates towards zero.\<close>

definition py_int :: "rat \<Rightarrow> int" where
  "py_int q = (if q < 0 then \<lceil>q\<rceil> else \<lfloor>q\<rfloor>)"

text \<open>Truthiness of an optional number (\<^verbatim>\<open>if coord.step\<close>) and of an optional string.\<close>

definition truthy_num :: "rat option \<Rightarrow> bool" where
  "truthy_num x = (case x of None \<Rightarrow> False | Some v \<Rightarrow> v \<noteq> 0)"

definition truthy_str :: "string option \<Rightarrow> bool" where
  "truthy_str x = (case x of None \<Rightarrow> False | Some s \<Rightarrow> s \<noteq> [])"

text \<open>
  The conditional expression of lines 88--92.  Subtracting with a \<^verbatim>\<open>None\<close> operand
  raises \<^verbatim>\<open>TypeError\<close>; the division is reached only with a non-zero step.
\<close>

definition range_size :: "coordinate \<Rightarrow> py_error + int option" where
  "range_size c =
     (if truthy_num (step c) then
        (case (maximum_value c, minimum_value c, step c) of
           (Some hi, Some lo, Some st) \<Rightarrow> Inr (Some (py_int ((hi - lo) / st) + 1))
         | _ \<Rightarrow> Inl TypeError)
      else Inr None)"

definition empty_dim :: "string \<Rightarrow> dimension" where
  "empty_dim a =
     \<lparr>dim_axis = a, dim_size = None, dim_values = None, dim_min = None, dim_max = None,
      dim_step = None, dim_chunk_size = None, dim_units = None\<rparr>"

text \<open>The first \<^verbatim>\<open>if\<close>/\<^verbatim>\<open>else\<close> of the loop body (lines 84--98).\<close>

definition dim_extent :: "coordinate \<Rightarrow> dimension \<Rightarrow> py_error + dimension" where
  "dim_extent c d =
     (case coord_values c of
        Some vs \<Rightarrow> Inr (d\<lparr>dim_values := Some vs, dim_size := Some (int (length vs))\<rparr>)
      | None \<Rightarrow>
          (case range_size c of
             Inl e \<Rightarrow> Inl e
           | Inr sz \<Rightarrow>
               (let d1 = d\<lparr>dim_size := sz\<rparr>;
                    d2 = (if minimum_value c \<noteq> None then d1\<lparr>dim_min := minimum_value c\<rparr> else d1);
                    d3 = (if maximum_value c \<noteq> None then d2\<lparr>dim_max := maximum_value c\<rparr> else d2);
                    d4 = (if step c \<noteq> None then d3\<lparr>dim_step := step c\<rparr> else d3)
                in Inr d4)))"

text \<open>The whole loop body for one coordinate (lines 82--103).\<close>

definition build_dim :: "coordinate \<Rightarrow> py_error + dimension" where
  "build_dim c =
     (case dim_extent c (empty_dim (axis c)) of
        Inl e \<Rightarrow> Inl e
      | Inr d \<Rightarrow>
          (let d1 = (if chunking_length c \<noteq> None
                     then d\<lparr>dim_chunk_size := chunking_length c\<rparr> else d);
               d2 = (if truthy_str (coordinate_unit c)
                     then d1\<lparr>dim_units := coordinate_unit c\<rparr> else d1)
           in Inr d2))"

text \<open>The loop over \<^verbatim>\<open>ref_var.coordinates\<close>, filling the dictionary \<^verbatim>\<open>dimensions\<close>.\<close>

fun build_dimensions ::
  "coordinate list \<Rightarrow> (string \<rightharpoonup> dimension) \<Rightarrow> py_error + (string \<rightharpoonup> dimension)" where
  "build_dimensions [] m = Inr m"
| "build_dimensions (c # cs) m =
     (case build_dim c of
        Inl e \<Rightarrow> Inl e
      | Inr d \<Rightarrow> build_dimensions cs (m(coordinate_id c \<mapsto> d)))"

text \<open>The loop over \<^verbatim>\<open>svc.variables\<close>, filling the dictionary \<^verbatim>\<open>variables\<close>.\<close>

fun build_variables ::
  "string list \<Rightarrow> cm_variable list \<Rightarrow> (string \<rightharpoonup> variable_info) \<Rightarrow> (string \<rightharpoonup> variable_info)" where
  "build_variables wanted [] m = m"
| "build_variables wanted (v # vs) m =
     build_variables wanted vs
       (if short_name v \<in> set wanted
        then m(short_name v \<mapsto> \<lparr>info_standard_name = standard_name v, info_units = units v\<rparr>)
        else m)"

text \<open>The search for the preferred service: the first service of that name.\<close>

fun find_service :: "string \<Rightarrow> service list \<Rightarrow> service option" where
  "find_service n [] = None"
| "find_service n (s # ss) = (if service_name s = n then Some s else find_service n ss)"

text \<open>
  \<^verbatim>\<open>build_entry\<close>.  The result \<open>Inr None\<close> is the Python \<^verbatim>\<open>return None\<close>; a positional
  access \<^verbatim>\<open>[0]\<close> into an empty list raises \<^verbatim>\<open>IndexError\<close>.  The provider is the first
  argument; its own exceptions pass through.
\<close>

definition build_entry :: "provider \<Rightarrow> target \<Rightarrow> py_error + entry option" where
  "build_entry describe t =
     (case describe (dataset_id t) of
        Inl e \<Rightarrow> Inl e
      | Inr cat \<Rightarrow>
     (case products cat of
        [] \<Rightarrow> Inr None
      | prd # _ \<Rightarrow>
     (case datasets prd of
        [] \<Rightarrow> Inl IndexError
      | ds # _ \<Rightarrow>
     (case versions ds of
        [] \<Rightarrow> Inl IndexError
      | ver # _ \<Rightarrow>
     (case parts ver of
        [] \<Rightarrow> Inl IndexError
      | part # _ \<Rightarrow>
     (case find_service (preferred_service t) (services part) of
        None \<Rightarrow> Inr None
      | Some svc \<Rightarrow>
          if service_format svc \<noteq> Some ''zarr'' then Inr None
          else
            (let vars = build_variables (target_variables t) (variables svc) Map.empty
             in case variables svc of
                  [] \<Rightarrow> Inl IndexError
                | ref_var # _ \<Rightarrow>
                    (case build_dimensions (coordinates ref_var) Map.empty of
                       Inl e \<Rightarrow> Inl e
                     | Inr dims \<Rightarrow>
                         Inr (Some \<lparr>entry_id = dataset_id t,
                                    entry_product = product_id prd,
                                    entry_label = label t,
                                    zarr_url = uri svc,
                                    entry_variables = vars,
                                    entry_dimensions = dims\<rparr>)))))))))"

subsection \<open>main\<close>

text \<open>
  The loop of \<^verbatim>\<open>main\<close> over the targets, with the list \<^verbatim>\<open>entries\<close> as accumulator.
  The call of \<^verbatim>\<open>build_entry\<close> is not wrapped in any handler.
\<close>

fun collect_entries :: "provider \<Rightarrow> target list \<Rightarrow> entry list \<Rightarrow> py_error + entry list" where
  "collect_entries describe [] acc = Inr acc"
| "collect_entries describe (t # ts) acc =
     (case build_entry describe t of
        Inl e \<Rightarrow> Inl e
      | Inr None \<Rightarrow> collect_entries describe ts acc
      | Inr (Some en) \<Rightarrow> collect_entries describe ts (acc @ [en]))"

text \<open>
  \<^verbatim>\<open>main\<close> of build_catalog.py, with the provider, the clock reading and the target list
  as arguments; the script passes \<open>TARGETS\<close>.  The value is the catalog that is written
  to the output file.
\<close>

definition build_catalog :: "provider \<Rightarrow> string \<Rightarrow> target list \<Rightarrow> py_error + catalog" where
  "build_catalog describe now ts =
     (case collect_entries describe ts [] of
        Inl e \<Rightarrow> Inl e
      | Inr es \<Rightarrow> Inr \<lparr>generated = now, cat_datasets = es\<rparr>)"

section \<open>Observations and concrete inputs for build_catalog.py\<close>

text \<open>
  Two projections of the result of \<^verbatim>\<open>build_entry\<close>: the descriptor emitted under a
  coordinate id, and the entry if there is one.
\<close>

definition emitted_dimension :: "provider \<Rightarrow> target \<Rightarrow> string \<Rightarrow> dimension option" where
  "emitted_dimension describe t k =
     (case build_entry describe t of Inr (Some e) \<Rightarrow> entry_dimensions e k | _ \<Rightarrow> None)"

definition entry_of :: "provider \<Rightarrow> target \<Rightarrow> entry option" where
  "entry_of describe t = (case build_entry describe t of Inr r \<Rightarrow> r | Inl _ \<Rightarrow> None)"

text \<open>
  Provider answers used as concrete inputs.  A coordinate with a regular range
  (minimum 0, maximum 10, step 2), one with a step of zero, one whose minimum exceeds
  its maximum, one with explicit values, and one for which nothing is reported.
\<close>

definition currents_target :: target where
  "currents_target =
     \<lparr>dataset_id = ''cmems_mod_glo_phy-cur_anfc_0.083deg_PT6H-i'',
      label = ''Global Ocean Currents (analysis+forecast)'',
      target_variables = [''uo'', ''vo''],
      preferred_service = ''arco-geo-series''\<rparr>"

definition regular_coord :: coordinate where
  "regular_coord =
     \<lparr>coordinate_id = ''longitude'', axis = ''x'', coord_values = None,
      minimum_value = Some 0, maximum_value = Some 10, step = Some 2,
      chunking_length = Some 240, coordinate_unit = Some ''degrees_east''\<rparr>"

definition zero_step_coord :: coordinate where
  "zero_step_coord = regular_coord\<lparr>step := Some 0\<rparr>"

definition descending_coord :: coordinate where
  "descending_coord = regular_coord\<lparr>minimum_value := Some 10, maximum_value := Some 0, step := Some 3\<rparr>"

definition listed_coord :: coordinate where
  "listed_coord =
     \<lparr>coordinate_id = ''depth'', axis = ''z'', coord_values = Some [Num 1, Num 2, Num 3],
      minimum_value = Some 1, maximum_value = Some 3, step = None,
      chunking_length = None, coordinate_unit = Some ''m''\<rparr>"

definition bare_coord :: coordinate where
  "bare_coord =
     \<lparr>coordinate_id = ''time'', axis = ''t'', coord_values = None,
      minimum_value = None, maximum_value = None, step = None,
      chunking_length = None, coordinate_unit = None\<rparr>"

definition zarr_service :: "cm_variable list \<Rightarrow> service" where
  "zarr_service vs =
     \<lparr>service_name = ''arco-geo-series'', service_format = Some ''zarr'',
      uri = ''https://s3.example/timeChunked.zarr'', variables = vs\<rparr>"

definition uo_variable :: "coordinate list \<Rightarrow> cm_variable" where
  "uo_variable cs =
     \<lparr>short_name = ''uo'', standard_name = Some ''eastward_sea_water_velocity'',
      units = Some ''m s-1'', coordinates = cs\<rparr>"

definition catalogue_of_services :: "service list \<Rightarrow> catalogue" where
  "catalogue_of_services ss =
     \<lparr>products = [\<lparr>product_id = ''GLOBAL_ANALYSISFORECAST_PHY_001_024'',
        datasets = [\<lparr>versions = [\<lparr>parts = [\<lparr>services = ss\<rparr>]\<rparr>]\<rparr>]\<rparr>]\<rparr>"

definition catalogue_of_coords :: "coordinate list \<Rightarrow> catalogue" where
  "catalogue_of_coords cs = catalogue_of_services [zarr_service [uo_variable cs]]"

definition no_service_catalogue :: catalogue where
  "no_service_catalogue =
     catalogue_of_services
       [\<lparr>service_name = ''arco-time-series'', service_format = Some ''zarr'',
         uri = ''https://s3.example/geoChunked.zarr'', variables = [uo_variable [regular_coord]]\<rparr>]"

definition not_zarr_catalogue :: catalogue where
  "not_zarr_catalogue =
     catalogue_of_services
       [\<lparr>service_name = ''arco-geo-series'', service_format = Some ''sqlite'',
         uri = ''https://s3.example/index.sqlite'', variables = [uo_variable [regular_coord]]\<rparr>]"

definition other_target :: target where
  "other_target = currents_target\<lparr>dataset_id := ''cmems_obs_other'', label := ''Other''\<rparr>"

definition mixed_provider :: provider where
  "mixed_provider i =
     (if i = ''cmems_obs_other'' then Inr not_zarr_catalogue
      else Inr (catalogue_of_coords [regular_coord]))"

definition faulty_provider :: provider where
  "faulty_provider i =
     (if i = ''cmems_obs_other'' then Inl (ProviderFault ''connection refused'')
      else Inr (catalogue_of_coords [regular_coord]))"

definition empty_catalogue :: catalogue where
  "empty_catalogue = \<lparr>products = []\<rparr>"

definition no_datasets_catalogue :: catalogue where
  "no_datasets_catalogue = \<lparr>products = [\<lparr>product_id = ''P'', datasets = []\<rparr>]\<rparr>"

definition no_versions_catalogue :: catalogue where
  "no_versions_catalogue =
     \<lparr>products = [\<lparr>product_id = ''P'', datasets = [\<lparr>versions = []\<rparr>]\<rparr>]\<rparr>"

definition no_parts_catalogue :: catalogue where
  "no_parts_catalogue =
     \<lparr>products = [\<lparr>product_id = ''P'', datasets = [\<lparr>versions = [\<lparr>parts = []\<rparr>]\<rparr>]\<rparr>]\<rparr>"

definition no_variables_catalogue :: catalogue where
  "no_variables_catalogue = catalogue_of_services [zarr_service []]"

section \<open>Properties of build_catalog.py\<close>

subsection \<open>Auxiliary facts\<close>



lemma build_dim_values:
  "coord_values c = Some vs \<Longrightarrow> build_dim c = Inr d \<Longrightarrow>
     dim_values d = Some vs \<and> dim_size d = Some (int (length vs)) \<and>
     dim_min d = None \<and> dim_max d = None \<and> dim_step d = None"
  by (auto simp: build_dim_def dim_extent_def empty_dim_def Let_def split: if_splits)

lemma build_dim_range:
  "coord_values c = None \<Longrightarrow> build_dim c = Inr d \<Longrightarrow>
     dim_values d = None \<and> range_size c = Inr (dim_size d) \<and>
     dim_min d = minimum_value c \<and> dim_max d = maximum_value c \<and> dim_step d = step c"
  by (auto simp: build_dim_def dim_extent_def empty_dim_def Let_def split: if_splits sum.splits)

lemma build_dimensions_source:
  "build_dimensions cs m = Inr m' \<Longrightarrow> m' k = Some d \<Longrightarrow>
     m k = Some d \<or> (\<exists>c\<in>set cs. coordinate_id c = k \<and> build_dim c = Inr d)"
proof (induction cs arbitrary: m)
  case Nil
  then show ?case by simp
next
  case (Cons c cs)
  from Cons.prems(1) obtain dc where dc: "build_dim c = Inr dc"
    and rest: "build_dimensions cs (m(coordinate_id c \<mapsto> dc)) = Inr m'"
    by (auto split: sum.splits)
  from Cons.IH[OF rest Cons.prems(2)] show ?case
    using dc by (auto split: if_splits)
qed

lemma build_entry_dimension_source:
  assumes "describe (dataset_id t) = Inr cat"
    and "products cat = prd # ps"
    and "datasets prd = ds # dss"
    and "versions ds = ver # vers"
    and "parts ver = prt # prts"
    and "find_service (preferred_service t) (services prt) = Some svc"
    and "variables svc = ref_var # vs"
    and "build_entry describe t = Inr (Some e)"
    and "entry_dimensions e k = Some d"
  shows "\<exists>c\<in>set (coordinates ref_var). coordinate_id c = k \<and> build_dim c = Inr d"
proof -
  from assms have "build_dimensions (coordinates ref_var) Map.empty = Inr (entry_dimensions e)"
    by (auto simp: build_entry_def Let_def split: if_splits sum.splits)
  from build_dimensions_source[OF this assms(9)] show ?thesis by simp
qed

lemmas example_defs =
  currents_target_def regular_coord_def zero_step_coord_def descending_coord_def
  listed_coord_def bare_coord_def zarr_service_def uo_variable_def
  catalogue_of_services_def catalogue_of_coords_def


lemmas eval_defs =
  emitted_dimension_def build_entry_def build_dim_def dim_extent_def range_size_def
  truthy_num_def truthy_str_def empty_dim_def py_int_def Let_def



lemma find_service_None: "find_service n ss = None \<longleftrightarrow> (\<forall>s\<in>set ss. service_name s \<noteq> n)"
  by (induction ss) auto

lemma collect_entries_skip:
  "build_entry describe t = Inr None \<Longrightarrow>
     collect_entries describe (pre @ t # post) acc = collect_entries describe (pre @ post) acc"
  by (induction pre arbitrary: acc) (auto split: sum.splits option.splits)

lemma collect_entries_total:
  "\<forall>u\<in>set ts. \<exists>r. build_entry describe u = Inr r \<Longrightarrow>
     collect_entries describe ts acc = Inr (acc @ List.map_filter (entry_of describe) ts)"
proof (induction ts arbitrary: acc)
  case Nil
  then show ?case by (simp add: List.map_filter_simps)
next
  case (Cons t ts)
  then obtain r where r: "build_entry describe t = Inr r" by auto
  from Cons have IH: "\<And>acc. collect_entries describe ts acc =
      Inr (acc @ List.map_filter (entry_of describe) ts)" by simp
  have eo: "entry_of describe t = r" by (simp add: entry_of_def r)
  show ?case
    by (cases r) (simp_all add: r IH List.map_filter_simps eo)
qed

lemma collect_entries_raise:
  "\<forall>u\<in>set pre. \<exists>r. build_entry describe u = Inr r \<Longrightarrow> build_entry describe t = Inl err \<Longrightarrow>
     collect_entries describe (pre @ t # post) acc = Inl err"
proof (induction pre arbitrary: acc)
  case Nil
  then show ?case by simp
next
  case (Cons u pre)
  then obtain r where r: "build_entry describe u = Inr r" by auto
  from Cons have IH: "\<And>acc. collect_entries describe (pre @ t # post) acc = Inl err" by simp
  show ?case by (cases r) (simp_all add: r IH)
qed

lemma build_entry_provider_fault:
  "describe (dataset_id t) = Inl err \<Longrightarrow> build_entry describe t = Inl err"
  by (simp add: build_entry_def)

lemma build_dimensions_error: "build_dimensions cs m = Inl e \<Longrightarrow> e = TypeError"
proof (induction cs arbitrary: m)
  case Nil
  then show ?case by simp
next
  case (Cons c cs)
  show ?case
  proof (cases "build_dim c")
    case (Inl e')
    with Cons.prems have "e = e'" by simp
    with Inl show ?thesis
      by (auto simp: build_dim_def dim_extent_def range_size_def Let_def
          split: sum.splits option.splits if_splits)
  next
    case (Inr d)
    with Cons show ?thesis by simp
  qed
qed

subsection \<open>Size of a regular axis\<close>




subsection \<open>A provider fault ends the build\<close>

text \<open>
  Claim C3.  The claim reads: when the provider raises while one target is processed,
  the build catches the exception at that target, treats the target as absent, and still
  processes and includes the remaining targets.

  Neither \<^verbatim>\<open>build_entry\<close> nor the loop of \<^verbatim>\<open>main\<close> contains a handler.  What holds: when
  the provider raises for a target and no earlier target raised, \<^verbatim>\<open>build_entry\<close> raises
  the same exception and so does the whole build, whatever targets follow; no catalog is
  produced.
\<close>

theorem provider_fault_aborts_build:
  assumes "\<forall>u\<in>set pre. \<exists>r. build_entry describe u = Inr r"
    and "describe (dataset_id t) = Inl err"
  shows "build_entry describe t = Inl err \<and>
         build_catalog describe now (pre @ t # post) = Inl err"
proof -
  have t: "build_entry describe t = Inl err"
    by (rule build_entry_provider_fault) (rule assms(2))
  from collect_entries_raise[OF assms(1) t]
  have "collect_entries describe (pre @ t # post) [] = Inl err" .
  with t show ?thesis by (simp add: build_catalog_def)
qed

theorem provider_fault_aborts_build_witness:
  "(\<exists>r. build_entry faulty_provider currents_target = Inr r) \<and>
   faulty_provider (dataset_id other_target) = Inl (ProviderFault ''connection refused'') \<and>
   build_catalog faulty_provider ''2026-01-01T00:00:00+00:00''
     [currents_target, other_target, currents_target] = Inl (ProviderFault ''connection refused'')"
proof -
  have a: "\<exists>r. build_entry faulty_provider currents_target = Inr r"
    by (simp add: faulty_provider_def eval_defs example_defs)
  then have a': "\<forall>u\<in>set [currents_target]. \<exists>r. build_entry faulty_provider u = Inr r"
    by simp
  have b: "faulty_provider (dataset_id other_target) = Inl (ProviderFault ''connection refused'')"
    by (simp add: faulty_provider_def other_target_def)
  from provider_fault_aborts_build[where describe = faulty_provider and t = other_target
      and now = "''2026-01-01T00:00:00+00:00''" and pre = "[currents_target]"
      and post = "[currents_target]", OF a' b]
  have "build_catalog faulty_provider ''2026-01-01T00:00:00+00:00''
     [currents_target, other_target, currents_target] = Inl (ProviderFault ''connection refused'')"
    by simp
  with a b show ?thesis by simp
qed

text \<open>
  The claim as written fails for two targets of which the first meets a provider fault:
  the build ends with that fault although the second target alone yields an entry.
\<close>

theorem provider_fault_counterexample:
  "build_catalog faulty_provider ''2026-01-01T00:00:00+00:00'' [other_target, currents_target]
     = Inl (ProviderFault ''connection refused'') \<and>
   entry_of faulty_provider currents_target \<noteq> None"
  by (simp add: build_catalog_def entry_of_def faulty_provider_def other_target_def
      eval_defs example_defs)

subsection \<open>A lookup miss skips the target\<close>

text \<open>
  Claim C7.  For a target whose delivery part has no service named
  \<^verbatim>\<open>preferred_service\<close>, or whose first service of that name has a format other than
  \<^verbatim>\<open>zarr\<close>, \<^verbatim>\<open>build_entry\<close> returns \<^verbatim>\<open>None\<close>; the build over a target list containing it
  equals the build over the list without it; and when no other target raises, the
  catalog holds the entries of the other targets in their configured order.
\<close>

theorem lookup_miss_is_skipped:
  assumes "describe (dataset_id t) = Inr cat"
    and "products cat = prd # ps"
    and "datasets prd = ds # dss"
    and "versions ds = ver # vers"
    and "parts ver = prt # prts"
    and "(\<forall>s\<in>set (services prt). service_name s \<noteq> preferred_service t) \<or>
         (\<exists>svc. find_service (preferred_service t) (services prt) = Some svc \<and>
                service_format svc \<noteq> Some ''zarr'')"
  shows "build_entry describe t = Inr None \<and>
         build_catalog describe now (pre @ t # post) = build_catalog describe now (pre @ post) \<and>
         ((\<forall>u\<in>set (pre @ post). \<exists>r. build_entry describe u = Inr r) \<longrightarrow>
            build_catalog describe now (pre @ t # post) =
              Inr \<lparr>generated = now,
                   cat_datasets = List.map_filter (entry_of describe) (pre @ post)\<rparr>)"
proof -
  from assms(6) have "find_service (preferred_service t) (services prt) = None \<or>
      (\<exists>svc. find_service (preferred_service t) (services prt) = Some svc \<and>
             service_format svc \<noteq> Some ''zarr'')"
    by (simp add: find_service_None)
  with assms(1-5) have absent: "build_entry describe t = Inr None"
    by (auto simp: build_entry_def)
  have skip: "build_catalog describe now (pre @ t # post) = build_catalog describe now (pre @ post)"
    by (simp add: build_catalog_def collect_entries_skip[OF absent])
  have "build_catalog describe now (pre @ post) =
          Inr \<lparr>generated = now, cat_datasets = List.map_filter (entry_of describe) (pre @ post)\<rparr>"
    if "\<forall>u\<in>set (pre @ post). \<exists>r. build_entry describe u = Inr r"
    by (simp add: build_catalog_def collect_entries_total[OF that])
  with absent skip show ?thesis by simp
qed

theorem lookup_miss_is_skipped_witness:
  "build_entry mixed_provider other_target = Inr None \<and>
   build_catalog mixed_provider ''2026-01-01T00:00:00+00:00''
       [currents_target, other_target, currents_target] =
     build_catalog mixed_provider ''2026-01-01T00:00:00+00:00'' [currents_target, currents_target] \<and>
   build_entry (\<lambda>_. Inr no_service_catalogue) currents_target = Inr None"
proof -
  let ?prd = "hd (products not_zarr_catalogue)"
  let ?ds = "hd (datasets ?prd)"
  let ?ver = "hd (versions ?ds)"
  let ?prt = "hd (parts ?ver)"
  let ?svc = "hd (services ?prt)"
  have h1: "mixed_provider (dataset_id other_target) = Inr not_zarr_catalogue"
    by (simp add: mixed_provider_def other_target_def)
  have h2: "products not_zarr_catalogue = ?prd # []"
    by (simp add: not_zarr_catalogue_def example_defs)
  have h3: "datasets ?prd = ?ds # []" by (simp add: not_zarr_catalogue_def example_defs)
  have h4: "versions ?ds = ?ver # []" by (simp add: not_zarr_catalogue_def example_defs)
  have h5: "parts ?ver = ?prt # []" by (simp add: not_zarr_catalogue_def example_defs)
  have h6: "(\<forall>s\<in>set (services ?prt). service_name s \<noteq> preferred_service other_target) \<or>
         (\<exists>svc. find_service (preferred_service other_target) (services ?prt) = Some svc \<and>
                service_format svc \<noteq> Some ''zarr'')"
    by (simp add: not_zarr_catalogue_def other_target_def example_defs)
  note a = lookup_miss_is_skipped[where describe = mixed_provider and t = other_target
      and now = "''2026-01-01T00:00:00+00:00''" and pre = "[currents_target]"
      and post = "[currents_target]", OF h1 h2 h3 h4 h5 h6]
  let ?prd' = "hd (products no_service_catalogue)"
  let ?ds' = "hd (datasets ?prd')"
  let ?ver' = "hd (versions ?ds')"
  let ?prt' = "hd (parts ?ver')"
  let ?Q = "\<lambda>_::string. (Inr no_service_catalogue :: py_error + catalogue)"
  have g1: "?Q (dataset_id currents_target) = Inr no_service_catalogue" by simp
  have g2: "products no_service_catalogue = ?prd' # []"
    by (simp add: no_service_catalogue_def example_defs)
  have g3: "datasets ?prd' = ?ds' # []" by (simp add: no_service_catalogue_def example_defs)
  have g4: "versions ?ds' = ?ver' # []" by (simp add: no_service_catalogue_def example_defs)
  have g5: "parts ?ver' = ?prt' # []" by (simp add: no_service_catalogue_def example_defs)
  have g6: "(\<forall>s\<in>set (services ?prt'). service_name s \<noteq> preferred_service currents_target) \<or>
         (\<exists>svc. find_service (preferred_service currents_target) (services ?prt') = Some svc \<and>
                service_format svc \<noteq> Some ''zarr'')"
    by (simp add: no_service_catalogue_def example_defs)
  note b = lookup_miss_is_skipped[OF g1 g2 g3 g4 g5 g6, of "''''" "[]" "[]"]
  from a b show ?thesis by simp
qed

subsection \<open>Explicit values or a range\<close>

text \<open>
  Claim C9.  The claim reads: every emitted dimension descriptor populates exactly one of
  the explicit value list and the \<^verbatim>\<open>min\<close>/\<^verbatim>\<open>max\<close>/\<^verbatim>\<open>step\<close> range: with explicit values
  it records them with \<^verbatim>\<open>size\<close> equal to their number and no range field; otherwise it
  carries only the range fields that the provider reported.

  The second sentence holds as it stands.  The first holds with "at most one": a
  coordinate for which the provider reports neither values nor any of minimum, maximum
  and step yields a descriptor with neither.  Exactly one of the two is populated if and
  only if the provider reported values or at least one range field.
\<close>

theorem dimension_extent_fields:
  assumes "describe (dataset_id t) = Inr cat"
    and "products cat = prd # ps"
    and "datasets prd = ds # dss"
    and "versions ds = ver # vers"
    and "parts ver = prt # prts"
    and "find_service (preferred_service t) (services prt) = Some svc"
    and "variables svc = ref_var # vs"
    and "build_entry describe t = Inr (Some e)"
    and "entry_dimensions e k = Some d"
  shows "\<exists>c\<in>set (coordinates ref_var). coordinate_id c = k \<and> build_dim c = Inr d \<and>
     (\<forall>vals. coord_values c = Some vals \<longrightarrow>
        dim_values d = Some vals \<and> dim_size d = Some (int (length vals)) \<and>
        dim_min d = None \<and> dim_max d = None \<and> dim_step d = None) \<and>
     (coord_values c = None \<longrightarrow>
        dim_values d = None \<and> dim_min d = minimum_value c \<and>
        dim_max d = maximum_value c \<and> dim_step d = step c) \<and>
     (dim_values d = None \<or> (dim_min d = None \<and> dim_max d = None \<and> dim_step d = None)) \<and>
     (((dim_values d \<noteq> None) \<noteq> (dim_min d \<noteq> None \<or> dim_max d \<noteq> None \<or> dim_step d \<noteq> None)) \<longleftrightarrow>
      (coord_values c \<noteq> None \<or> minimum_value c \<noteq> None \<or> maximum_value c \<noteq> None \<or>
       step c \<noteq> None))"
proof -
  from build_entry_dimension_source[OF assms]
  obtain c where c: "c \<in> set (coordinates ref_var)" "coordinate_id c = k" "build_dim c = Inr d"
    by blast
  have "(\<forall>vals. coord_values c = Some vals \<longrightarrow>
        dim_values d = Some vals \<and> dim_size d = Some (int (length vals)) \<and>
        dim_min d = None \<and> dim_max d = None \<and> dim_step d = None) \<and>
     (coord_values c = None \<longrightarrow>
        dim_values d = None \<and> dim_min d = minimum_value c \<and>
        dim_max d = maximum_value c \<and> dim_step d = step c) \<and>
     (dim_values d = None \<or> (dim_min d = None \<and> dim_max d = None \<and> dim_step d = None)) \<and>
     (((dim_values d \<noteq> None) \<noteq> (dim_min d \<noteq> None \<or> dim_max d \<noteq> None \<or> dim_step d \<noteq> None)) \<longleftrightarrow>
      (coord_values c \<noteq> None \<or> minimum_value c \<noteq> None \<or> maximum_value c \<noteq> None \<or>
       step c \<noteq> None))"
  proof (cases "coord_values c")
    case None
    from build_dim_range[OF None c(3)] None show ?thesis by simp
  next
    case (Some vals)
    from build_dim_values[OF Some c(3)] Some show ?thesis by simp
  qed
  with c show ?thesis by (intro bexI[of _ c]) simp_all
qed

theorem dimension_extent_fields_witness:
  "\<exists>e d. build_entry (\<lambda>_. Inr (catalogue_of_coords [listed_coord, regular_coord])) currents_target
            = Inr (Some e) \<and>
     entry_dimensions e ''depth'' = Some d \<and>
     dim_values d = Some [Num 1, Num 2, Num 3] \<and> dim_size d = Some 3 \<and>
     dim_min d = None \<and> dim_max d = None \<and> dim_step d = None"
proof -
  let ?cat = "catalogue_of_coords [listed_coord, regular_coord]"
  let ?P = "\<lambda>_::string. (Inr ?cat :: py_error + catalogue)"
  let ?prd = "hd (products ?cat)"
  let ?ds = "hd (datasets ?prd)"
  let ?ver = "hd (versions ?ds)"
  let ?prt = "hd (parts ?ver)"
  let ?var = "uo_variable [listed_coord, regular_coord]"
  let ?svc = "zarr_service [?var]"
  have "\<exists>e. build_entry ?P currents_target = Inr (Some e)"
    by (simp add: eval_defs example_defs)
  then obtain e where e: "build_entry ?P currents_target = Inr (Some e)" ..
  then have "\<exists>d. entry_dimensions e ''depth'' = Some d"
    by (auto simp: eval_defs example_defs)
  then obtain d where d: "entry_dimensions e ''depth'' = Some d" ..
  have h1: "?P (dataset_id currents_target) = Inr ?cat" by simp
  have h2: "products ?cat = ?prd # []" by (simp add: example_defs)
  have h3: "datasets ?prd = ?ds # []" by (simp add: example_defs)
  have h4: "versions ?ds = ?ver # []" by (simp add: example_defs)
  have h5: "parts ?ver = ?prt # []" by (simp add: example_defs)
  have h6: "find_service (preferred_service currents_target) (services ?prt) = Some ?svc"
    by (simp add: example_defs)
  have h7: "variables ?svc = ?var # []" by (simp add: example_defs)
  from dimension_extent_fields[where describe = ?P and t = currents_target,
      OF h1 h2 h3 h4 h5 h6 h7 e d]
  have "dim_values d = Some [Num 1, Num 2, Num 3] \<and> dim_size d = Some 3 \<and>
     dim_min d = None \<and> dim_max d = None \<and> dim_step d = None"
    by (auto simp: example_defs)
  with e d show ?thesis by (intro exI[of _ e] exI[of _ d]) simp
qed

text \<open>
  The claim as written fails at a coordinate with no values, no minimum, no maximum and
  no step: none of \<^verbatim>\<open>values\<close>, \<^verbatim>\<open>min\<close>, \<^verbatim>\<open>max\<close>, \<^verbatim>\<open>step\<close> is in the descriptor.
\<close>

theorem dimension_extent_counterexample:
  "map_option dim_values
     (emitted_dimension (\<lambda>_. Inr (catalogue_of_coords [bare_coord])) currents_target ''time'')
     = Some None \<and>
   map_option dim_min
     (emitted_dimension (\<lambda>_. Inr (catalogue_of_coords [bare_coord])) currents_target ''time'')
     = Some None \<and>
   map_option dim_max
     (emitted_dimension (\<lambda>_. Inr (catalogue_of_coords [bare_coord])) currents_target ''time'')
     = Some None \<and>
   map_option dim_step
     (emitted_dimension (\<lambda>_. Inr (catalogue_of_coords [bare_coord])) currents_target ''time'')
     = Some None"
  by (simp add: eval_defs example_defs)

subsection \<open>Positional accesses\<close>

text \<open>
  Claim C10.  \<^verbatim>\<open>build_entry\<close> guards only the empty product list, for which it returns
  \<^verbatim>\<open>None\<close>.  It raises \<^verbatim>\<open>IndexError\<close> exactly when the first product has no datasets, or
  the first dataset no versions, or the first version no parts, or the matched
  \<^verbatim>\<open>zarr\<close> service reports no variables.
\<close>

theorem positional_access_partial:
  assumes "describe (dataset_id t) = Inr cat"
  shows "(products cat = [] \<longrightarrow> build_entry describe t = Inr None) \<and>
     (build_entry describe t = Inl IndexError \<longleftrightarrow>
       (\<exists>prd ps. products cat = prd # ps \<and>
         (datasets prd = [] \<or>
          (\<exists>ds dss. datasets prd = ds # dss \<and>
            (versions ds = [] \<or>
             (\<exists>ver vers. versions ds = ver # vers \<and>
               (parts ver = [] \<or>
                (\<exists>prt prts svc. parts ver = prt # prts \<and>
                   find_service (preferred_service t) (services prt) = Some svc \<and>
                   service_format svc = Some ''zarr'' \<and> variables svc = []))))))))"
proof -
  have a: "products cat = [] \<longrightarrow> build_entry describe t = Inr None"
    using assms by (simp add: build_entry_def)
  have b: "build_entry describe t = Inl IndexError \<longleftrightarrow>
       (\<exists>prd ps. products cat = prd # ps \<and>
         (datasets prd = [] \<or>
          (\<exists>ds dss. datasets prd = ds # dss \<and>
            (versions ds = [] \<or>
             (\<exists>ver vers. versions ds = ver # vers \<and>
               (parts ver = [] \<or>
                (\<exists>prt prts svc. parts ver = prt # prts \<and>
                   find_service (preferred_service t) (services prt) = Some svc \<and>
                   service_format svc = Some ''zarr'' \<and> variables svc = [])))))))"
    using assms
    by (auto simp: build_entry_def Let_def dest: build_dimensions_error
        split: list.splits option.splits sum.splits if_splits)
  from a b show ?thesis by (rule conjI)
qed

theorem positional_access_partial_witness:
  "build_entry (\<lambda>_. Inr empty_catalogue) currents_target = Inr None \<and>
   build_entry (\<lambda>_. Inr no_datasets_catalogue) currents_target = Inl IndexError \<and>
   build_entry (\<lambda>_. Inr no_versions_catalogue) currents_target = Inl IndexError \<and>
   build_entry (\<lambda>_. Inr no_parts_catalogue) currents_target = Inl IndexError \<and>
   build_entry (\<lambda>_. Inr no_variables_catalogue) currents_target = Inl IndexError \<and>
   build_entry (\<lambda>_. Inr (catalogue_of_coords [regular_coord])) currents_target \<noteq> Inl IndexError"
proof -
  note T = positional_access_partial[where t = currents_target]
  have 1: "build_entry (\<lambda>_. Inr empty_catalogue) currents_target = Inr None"
    using T[where describe = "\<lambda>_. Inr empty_catalogue" and cat = empty_catalogue]
    by (simp add: empty_catalogue_def)
  have 2: "build_entry (\<lambda>_. Inr no_datasets_catalogue) currents_target = Inl IndexError"
    using T[where describe = "\<lambda>_. Inr no_datasets_catalogue" and cat = no_datasets_catalogue]
    by (simp add: no_datasets_catalogue_def)
  have 3: "build_entry (\<lambda>_. Inr no_versions_catalogue) currents_target = Inl IndexError"
    using T[where describe = "\<lambda>_. Inr no_versions_catalogue" and cat = no_versions_catalogue]
    by (simp add: no_versions_catalogue_def)
  have 4: "build_entry (\<lambda>_. Inr no_parts_catalogue) currents_target = Inl IndexError"
    using T[where describe = "\<lambda>_. Inr no_parts_catalogue" and cat = no_parts_catalogue]
    by (simp add: no_parts_catalogue_def)
  have 5: "build_entry (\<lambda>_. Inr no_variables_catalogue) currents_target = Inl IndexError"
    using T[where describe = "\<lambda>_. Inr no_variables_catalogue" and cat = no_variables_catalogue]
    by (simp add: no_variables_catalogue_def example_defs)
  have 6: "build_entry (\<lambda>_. Inr (catalogue_of_coords [regular_coord])) currents_target
             \<noteq> Inl IndexError"
    using T[where describe = "\<lambda>_. Inr (catalogue_of_coords [regular_coord])"
        and cat = "catalogue_of_coords [regular_coord]"]
    by (simp add: example_defs)
  from 1 2 3 4 5 6 show ?thesis by simp
qed

end
